theory Spec2Isabelle
  imports Main "HOL-Library.Char_ord" "HOL-Library.List_Lexorder"
begin

section \<open>Python values, exceptions and log records\<close>

text \<open>
  The module \<^verbatim>\<open>bosdyn/client/sdk.py\<close> is embedded function by function. Byte strings and
  text strings are both lists of characters: a character of a byte string is a byte, a
  character of a text string is a code point below 256 (text with other code points is
  outside the model). A value that may be \<^verbatim>\<open>None\<close> or a string
  (a service name, a service type, a resource path) is a \<open>pyval\<close>; Python's truth test on
  it is \<open>truthy\<close>.
\<close>

type_synonym bytes = "char list"

datatype pyval = PNone | PStr string

fun truthy :: "pyval \<Rightarrow> bool" where
  "truthy PNone = False"
| "truthy (PStr s) = (s \<noteq> [])"

text \<open>
  The claims of a decoded token are JSON values. JSON numbers are modelled as integers
  (the \<^verbatim>\<open>exp\<close> claim is a count of seconds); fractional numbers are outside the model.
\<close>

datatype json =
    JNull
  | JBool bool
  | JInt int
  | JStr string
  | JList "json list"
  | JDict "(string \<times> json) list"

text \<open>
  Exceptions, one constructor per class that the module raises, catches or lets through.
  \<open>IOError_msg m\<close> is \<^verbatim>\<open>IOError(m)\<close> as the module itself raises it; \<open>IOError_os errno
  strerror filename\<close> is the \<^verbatim>\<open>IOError\<close> the operating system raises from \<^verbatim>\<open>open\<close> and
  \<^verbatim>\<open>read\<close>. \<open>AttributeError c a\<close> is a failed lookup of attribute \<open>a\<close> on class \<open>c\<close>.
  \<open>OtherException c m\<close> is any exception of another class \<open>c\<close> with message \<open>m\<close>.
\<close>

datatype exc =
    UnsetAppTokenError
  | UnableToLoadAppTokenError string
  | IOError_msg string
  | IOError_os int string string
  | AttributeError string string
  | TypeError string
  | OtherException string string

fun exc_class_name :: "exc \<Rightarrow> string" where
  "exc_class_name UnsetAppTokenError = ''UnsetAppTokenError''"
| "exc_class_name (UnableToLoadAppTokenError m) = ''UnableToLoadAppTokenError''"
| "exc_class_name (IOError_msg m) = ''IOError''"
| "exc_class_name (IOError_os n m f) = ''IOError''"
| "exc_class_name (AttributeError c a) = ''AttributeError''"
| "exc_class_name (TypeError m) = ''TypeError''"
| "exc_class_name (OtherException c m) = c"

text \<open>What the clauses \<^verbatim>\<open>except IOError\<close> and \<^verbatim>\<open>except TypeError\<close> catch.\<close>

fun is_IOError :: "exc \<Rightarrow> bool" where
  "is_IOError (IOError_msg m) = True"
| "is_IOError (IOError_os n m f) = True"
| "is_IOError e = False"

fun is_TypeError :: "exc \<Rightarrow> bool" where
  "is_TypeError (TypeError m) = True"
| "is_TypeError e = False"

text \<open>
  A failure of \<^verbatim>\<open>jwt.decode\<close>: a \<^verbatim>\<open>jwt.exceptions.DecodeError\<close> or any other exception,
  each with the text \<^verbatim>\<open>str(e)\<close>.
\<close>

datatype jwt_failure = DecodeError string | OtherJwtError string

fun jwt_failure_str :: "jwt_failure \<Rightarrow> string" where
  "jwt_failure_str (DecodeError m) = m"
| "jwt_failure_str (OtherJwtError m) = m"

datatype level = DEBUG | INFO | WARNING | ERROR

text \<open>
  A record handed to \<^verbatim>\<open>_LOGGER\<close>: its level and either a message or, for
  \<^verbatim>\<open>_LOGGER.exception(e)\<close>, the exception logged.
\<close>

datatype log_msg = Text string | ExcInfo exc

type_synonym log_record = "level \<times> log_msg"

section \<open>The environment of the module\<close>

text \<open>
  Everything the module reads from outside itself: the file system (\<^verbatim>\<open>glob.glob\<close>,
  \<^verbatim>\<open>os.path.isfile\<close>, \<^verbatim>\<open>open(...).read()\<close>, \<^verbatim>\<open>os.path.expanduser\<close>,
  \<^verbatim>\<open>pkg_resources.resource_stream(...).read()\<close>), the third-party decoder
  \<^verbatim>\<open>jwt.decode(token, verify=False)\<close>, \<^verbatim>\<open>bytes.decode()\<close>, the clock and the local
  time zone, and the process (\<^verbatim>\<open>__main__.__file__\<close>, \<^verbatim>\<open>os.getpid()\<close>,
  \<^verbatim>\<open>platform.node()\<close>, \<^verbatim>\<open>getpass.getuser()\<close>).

  \<open>glob\<close> gives the matches in the order \<^verbatim>\<open>glob.glob\<close> returns them. \<open>open_read\<close> gives
  the bytes of a file or the \<open>(errno, strerror)\<close> of the operating system's failure.
  \<open>utcnow\<close> is the current time in microseconds since the epoch, in UTC. \<open>utcoffset t\<close> is
  the number of seconds the local time zone is ahead of UTC at POSIX time \<open>t\<close>.
  \<open>fromtimestamp_error t\<close> is the exception that \<^verbatim>\<open>datetime.datetime.fromtimestamp\<close> raises
  for POSIX time \<open>t\<close> on this platform (an \<^verbatim>\<open>OverflowError\<close>, an \<^verbatim>\<open>OSError\<close>, which is an
  \<^verbatim>\<open>IOError\<close>, or a \<^verbatim>\<open>ValueError\<close>, for a time it cannot convert), or \<open>None\<close> when it
  converts \<open>t\<close>.
\<close>

record env =
  glob :: "string \<Rightarrow> string list"
  isfile :: "string \<Rightarrow> bool"
  open_read :: "string \<Rightarrow> (int \<times> string) + bytes"
  expanduser :: "string \<Rightarrow> string"
  resource_stream_read :: "string \<Rightarrow> string \<Rightarrow> exc + bytes"
  bytes_decode :: "bytes \<Rightarrow> string + string"
  jwt_decode :: "string \<Rightarrow> jwt_failure + (string \<rightharpoonup> json)"
  utcnow :: int
  utcoffset :: "int \<Rightarrow> int"
  fromtimestamp_error :: "int \<Rightarrow> exc option"
  main_file :: "string option"
  getpid :: nat
  node :: string
  getuser :: "string option"

section \<open>Library functions the module calls\<close>

text \<open>\<^verbatim>\<open>str(n)\<close> of an integer, in decimal.\<close>

definition digit_char :: "nat \<Rightarrow> char" where
  "digit_char d = ''0123456789'' ! d"

fun str_nat :: "nat \<Rightarrow> string" where
  "str_nat n = (if n < 10 then [digit_char n] else str_nat (n div 10) @ [digit_char (n mod 10)])"

declare str_nat.simps [simp del]

definition str_int :: "int \<Rightarrow> string" where
  "str_int i = (if i < 0 then CHR ''-'' # str_nat (nat (- i)) else str_nat (nat i))"

text \<open>
  \<^verbatim>\<open>str.strip()\<close>: removes leading and trailing whitespace. A character of a text string
  is a code point below 256, and \<open>py_isspace\<close> holds of the twelve of them that
  \<^verbatim>\<open>str.isspace\<close> accepts: U+0009 to U+000D, U+001C to U+001F, U+0020, U+0085 and U+00A0.
\<close>

definition py_isspace :: "char \<Rightarrow> bool" where
  "py_isspace c = (c \<in> set [CHR 0x09, CHR 0x0A, CHR 0x0B, CHR 0x0C, CHR 0x0D,
                             CHR 0x1C, CHR 0x1D, CHR 0x1E, CHR 0x1F, CHR 0x20,
                             CHR 0x85, CHR 0xA0])"

definition strip :: "string \<Rightarrow> string" where
  "strip s = rev (dropWhile py_isspace (rev (dropWhile py_isspace s)))"

text \<open>\<^verbatim>\<open>os.path.basename\<close>: what follows the last slash.\<close>

definition basename :: "string \<Rightarrow> string" where
  "basename p = rev (takeWhile (\<lambda>c. c \<noteq> CHR ''/'') (rev p))"

text \<open>
  A naive \<^verbatim>\<open>datetime\<close> is the number of microseconds between 1970-01-01 00:00:00 and the
  wall-clock reading it denotes; a \<^verbatim>\<open>timedelta\<close> is a number of microseconds. The
  difference of two naive datetimes is the difference of their readings.
\<close>

type_synonym datetime = int
type_synonym timedelta = int

definition timedelta :: "int \<Rightarrow> int \<Rightarrow> timedelta" where
  "timedelta days seconds = (days * 86400 + seconds) * 1000000"

text \<open>\<^verbatim>\<open>timedelta.days\<close>: the whole days, rounding towards minus infinity.\<close>

definition timedelta_days :: "timedelta \<Rightarrow> int" where
  "timedelta_days d = d div (86400 * 1000000)"

text \<open>
  \<^verbatim>\<open>datetime.datetime.fromtimestamp(v)\<close>: the naive datetime of the LOCAL wall clock at
  POSIX time \<open>v\<close>. A value that is not a number is a \<^verbatim>\<open>TypeError\<close> (a JSON boolean is
  a Python \<^verbatim>\<open>bool\<close>, which is an integer); for a time the platform cannot convert it
  raises what the platform raises (\<open>fromtimestamp_error\<close>).
\<close>

fun as_number :: "json \<Rightarrow> int option" where
  "as_number (JInt n) = Some n"
| "as_number (JBool b) = Some (if b then 1 else 0)"
| "as_number v = None"

definition datetime_fromtimestamp :: "env \<Rightarrow> json \<Rightarrow> exc + datetime" where
  "datetime_fromtimestamp e v =
     (case as_number v of
        None \<Rightarrow> Inl (TypeError ''an integer is required'')
      | Some n \<Rightarrow>
          (case fromtimestamp_error e n of
             Some x \<Rightarrow> Inl x
           | None \<Rightarrow> Inr ((n + utcoffset e n) * 1000000)))"

text \<open>\<^verbatim>\<open>datetime.datetime.utcnow()\<close>: the naive datetime of the UTC wall clock now.\<close>

definition datetime_utcnow :: "env \<Rightarrow> datetime" where
  "datetime_utcnow e = utcnow e"

text \<open>
  \<^verbatim>\<open>datetime.datetime.strftime(d, '%Y/%m/%d')\<close>: the civil date of a naive datetime,
  year, month and day (month and day with two digits).
\<close>

definition civil_from_days :: "int \<Rightarrow> int \<times> int \<times> int" where
  "civil_from_days z0 =
     (let z = z0 + 719468;
          era = z div 146097;
          doe = z - era * 146097;
          yoe = (doe - doe div 1460 + doe div 36524 - doe div 146096) div 365;
          y = yoe + era * 400;
          doy = doe - (365 * yoe + yoe div 4 - yoe div 100);
          mp = (5 * doy + 2) div 153;
          d = doy - (153 * mp + 2) div 5 + 1;
          m = (if mp < 10 then mp + 3 else mp - 9)
      in (if m \<le> 2 then y + 1 else y, m, d))"

definition pad2 :: "int \<Rightarrow> string" where
  "pad2 n = (if n < 10 then CHR ''0'' # str_int n else str_int n)"

definition strftime_Ymd :: "datetime \<Rightarrow> string" where
  "strftime_Ymd d =
     (case civil_from_days (d div (86400 * 1000000)) of
        (y, m, dd) \<Rightarrow> str_int y @ ''/'' @ pad2 m @ ''/'' @ pad2 dd)"

section \<open>Data model\<close>

text \<open>
  A service client class as \<^verbatim>\<open>register_service_client\<close> sees it: the class and its two
  class attributes. \<open>None\<close> says the class has no such attribute (reading it raises
  \<^verbatim>\<open>AttributeError\<close>); \<open>Some v\<close> says the attribute exists with value \<open>v\<close>.
\<close>

record factory =
  factory_class :: string
  default_service_name :: "pyval option"
  service_type :: "pyval option"

text \<open>\<^verbatim>\<open>AddRequestHeader(lambda: client_name)\<close>, with the name the function returns.\<close>

datatype processor = AddRequestHeader string

text \<open>The fields of \<^verbatim>\<open>Sdk\<close>. \<open>robots\<close> maps an address to a reference into the heap of
  \<^verbatim>\<open>Robot\<close> objects.\<close>

record sdk =
  app_token :: "string option"
  cert :: "bytes option"
  logger :: string
  request_processors :: "processor list"
  response_processors :: "processor list"
  service_client_factories_by_type :: "pyval \<rightharpoonup> factory"
  service_type_by_name :: "pyval \<rightharpoonup> pyval"
  robots :: "string \<rightharpoonup> nat"

text \<open>
  Modelled from the spec: the class \<^verbatim>\<open>Robot\<close> (module \<^verbatim>\<open>robot.py\<close>, not among the
  sources). The spec's DeviceHandle is \<open>{address, displayName, settingsSnapshot: copy of
  SdkContext's registry/credential/certificate/interceptors at creation time}\<close>.
\<close>

record robot =
  robot_name :: string
  robot_address :: "string option"
  robot_app_token :: "string option"
  robot_cert :: "bytes option"
  robot_request_processors :: "processor list"
  robot_response_processors :: "processor list"
  robot_service_client_factories_by_type :: "pyval \<rightharpoonup> factory"
  robot_service_type_by_name :: "pyval \<rightharpoonup> pyval"

text \<open>Modelled from the spec: the constructor \<^verbatim>\<open>Robot(name=...)\<close>, which fixes the display
  name.\<close>

definition Robot_init :: "string \<Rightarrow> robot" where
  "Robot_init nm =
     \<lparr> robot_name = nm, robot_address = None, robot_app_token = None, robot_cert = None,
       robot_request_processors = [], robot_response_processors = [],
       robot_service_client_factories_by_type = Map.empty,
       robot_service_type_by_name = Map.empty \<rparr>"

text \<open>Modelled from the spec: the method \<^verbatim>\<open>Robot.update_from(sdk)\<close>, which copies the
  registry, the credential, the certificate and the interceptors of the Sdk into the
  handle.\<close>

definition update_from :: "robot \<Rightarrow> sdk \<Rightarrow> robot" where
  "update_from r s =
     r\<lparr> robot_app_token := app_token s, robot_cert := cert s,
        robot_request_processors := request_processors s,
        robot_response_processors := response_processors s,
        robot_service_client_factories_by_type := service_client_factories_by_type s,
        robot_service_type_by_name := service_type_by_name s \<rparr>"

text \<open>The heap of \<^verbatim>\<open>Robot\<close> objects: a reference is an index, a new object goes to the
  end.\<close>

type_synonym heap = "robot list"

text \<open>
  The module-level state: the list \<^verbatim>\<open>_DEFAULT_SERVICE_CLIENTS\<close> (one list object, shared
  by every call) and the records \<^verbatim>\<open>_LOGGER\<close> has received, oldest first.
\<close>

record module =
  DEFAULT_SERVICE_CLIENTS :: "factory list"
  LOGGER :: "log_record list"

definition emit :: "level \<Rightarrow> log_msg \<Rightarrow> module \<Rightarrow> module" where
  "emit l msg m = m\<lparr> LOGGER := LOGGER m @ [(l, msg)] \<rparr>"

section \<open>The functions of the module\<close>

text \<open>\<^verbatim>\<open>generate_client_name(prefix)\<close>.\<close>

definition generate_client_name :: "env \<Rightarrow> string \<Rightarrow> module \<Rightarrow> string \<times> module" where
  "generate_client_name e prefix m =
     (let process_info =
            (case main_file e of
               Some f \<Rightarrow> basename f @ ''-'' @ str_nat (getpid e)
             | None \<Rightarrow> str_nat (getpid e));
          machine_name = node e
      in if machine_name = [] then
           (case getuser e of
              Some user_name \<Rightarrow> (prefix @ user_name @ '':'' @ process_info, m)
            | None \<Rightarrow>
                (prefix @ ''<unknown host>'' @ '':'' @ process_info,
                 emit WARNING (Text ''Could not get username'') m))
         else (prefix @ machine_name @ '':'' @ process_info, m))"

text \<open>\<^verbatim>\<open>name or default\<close> for an optional string: an empty string counts as absent.\<close>

fun str_or :: "string option \<Rightarrow> string \<Rightarrow> string" where
  "str_or None d = d"
| "str_or (Some n) d = (if n \<noteq> [] then n else d)"

text \<open>\<^verbatim>\<open>Sdk.__init__(name)\<close>.\<close>

definition Sdk_init :: "string option \<Rightarrow> sdk" where
  "Sdk_init nm =
     \<lparr> app_token = None, cert = None, logger = str_or nm ''bosdyn.Sdk'',
       request_processors = [], response_processors = [],
       service_client_factories_by_type = Map.empty, service_type_by_name = Map.empty,
       robots = Map.empty \<rparr>"

text \<open>
  \<^verbatim>\<open>Sdk.create_robot(address, name)\<close>. The result is the exception raised or the reference
  returned, with the Sdk and the heap as the call leaves them.
\<close>

definition create_robot ::
    "sdk \<Rightarrow> string \<Rightarrow> string option \<Rightarrow> heap \<Rightarrow> (exc + nat) \<times> sdk \<times> heap" where
  "create_robot s address nm h =
     (if app_token s = None then (Inl UnsetAppTokenError, s, h)
      else
        (case robots s address of
           Some r \<Rightarrow> (Inr r, s, h)
         | None \<Rightarrow>
             (let robot0 = Robot_init (str_or nm address);
                  robot1 = robot0\<lparr> robot_address := Some address \<rparr>;
                  robot2 = update_from robot1 s;
                  r = length h
              in (Inr r, s\<lparr> robots := (robots s)(address \<mapsto> r) \<rparr>, h @ [robot2]))))"

text \<open>Reading the class attributes of a factory.\<close>

definition getattr_default_service_name :: "factory \<Rightarrow> exc + pyval" where
  "getattr_default_service_name f =
     (case default_service_name f of
        None \<Rightarrow> Inl (AttributeError (factory_class f) ''default_service_name'')
      | Some v \<Rightarrow> Inr v)"

definition getattr_service_type :: "factory \<Rightarrow> exc + pyval" where
  "getattr_service_type f =
     (case service_type f of
        None \<Rightarrow> Inl (AttributeError (factory_class f) ''service_type'')
      | Some v \<Rightarrow> Inr v)"

text \<open>
  \<^verbatim>\<open>Sdk.register_service_client(creation_func, service_type, service_name)\<close>. The name is
  resolved first, then the type; an attribute is read only when the argument is not truthy.
\<close>

definition register_service_client ::
    "sdk \<Rightarrow> factory \<Rightarrow> pyval \<Rightarrow> pyval \<Rightarrow> exc option \<times> sdk" where
  "register_service_client s creation_func stype sname =
     (case (if truthy sname then Inr sname else getattr_default_service_name creation_func) of
        Inl x \<Rightarrow> (Some x, s)
      | Inr sname' \<Rightarrow>
          (case (if truthy stype then Inr stype else getattr_service_type creation_func) of
             Inl x \<Rightarrow> (Some x, s)
           | Inr stype' \<Rightarrow>
               (None,
                s\<lparr> service_type_by_name := (service_type_by_name s)(sname' \<mapsto> stype'),
                   service_client_factories_by_type :=
                     (service_client_factories_by_type s)(stype' \<mapsto> creation_func) \<rparr>)))"

text \<open>
  The loop of \<^verbatim>\<open>load_robot_cert\<close> over the matched paths: \<open>acc\<close> is \<^verbatim>\<open>self.cert\<close>, which
  keeps what was read before a failing file.
\<close>

fun read_certs :: "env \<Rightarrow> string list \<Rightarrow> bytes \<Rightarrow> exc option \<times> bytes" where
  "read_certs e [] acc = (None, acc)"
| "read_certs e (cert_path # ps) acc =
     (case open_read e cert_path of
        Inl (n, msg) \<Rightarrow> (Some (IOError_os n msg cert_path), acc)
      | Inr b \<Rightarrow> read_certs e ps (acc @ b))"

text \<open>\<^verbatim>\<open>Sdk.load_robot_cert(resource_path_glob)\<close>.\<close>

definition load_robot_cert :: "env \<Rightarrow> sdk \<Rightarrow> string option \<Rightarrow> exc option \<times> sdk" where
  \<open>load_robot_cert e s resource_path_glob =
     (let s0 = s\<lparr> cert := None \<rparr>
      in case resource_path_glob of
           None \<Rightarrow>
             (case resource_stream_read e ''bosdyn.client.resources'' ''robot.pem'' of
                Inl x \<Rightarrow> (Some x, s0)
              | Inr b \<Rightarrow> (None, s0\<lparr> cert := Some b \<rparr>))
         | Some g \<Rightarrow>
             (let cert_paths = filter (isfile e) (glob e g)
              in if cert_paths = []
                 then (Some (IOError_msg (''No files matched "'' @ g @ ''"'')), s0)
                 else (case read_certs e cert_paths [] of
                         (x, acc) \<Rightarrow> (x, s0\<lparr> cert := Some acc \<rparr>))))\<close>

text \<open>\<^verbatim>\<open>decode_token(token)\<close>.\<close>

definition decode_token :: "env \<Rightarrow> string \<Rightarrow> exc + (string \<rightharpoonup> json)" where
  "decode_token e token =
     (case jwt_decode e token of
        Inr values \<Rightarrow> Inr values
      | Inl (DecodeError x) \<Rightarrow>
          Inl (UnableToLoadAppTokenError
                 (''Incorrectly formatted token '' @ token @ '' --- '' @ x))
      | Inl (OtherJwtError x) \<Rightarrow>
          Inl (UnableToLoadAppTokenError
                 (''Problem decoding token '' @ token @ '' --- '' @ x)))"

text \<open>\<^verbatim>\<open>log_token_time_remaining(token)\<close>.\<close>

definition log_token_time_remaining :: "env \<Rightarrow> string \<Rightarrow> module \<Rightarrow> exc option \<times> module" where
  "log_token_time_remaining e token m =
     (case decode_token e token of
        Inl x \<Rightarrow> (Some x, m)
      | Inr token_values \<Rightarrow>
          (case token_values ''exp'' of
             None \<Rightarrow> (Some (UnableToLoadAppTokenError ''Unknown token expiration''), m)
           | Some v \<Rightarrow>
               (case datetime_fromtimestamp e v of
                  Inl x \<Rightarrow> (Some x, m)
                | Inr expire_time \<Rightarrow>
                    (let time_to_expiration = expire_time - datetime_utcnow e
                     in if time_to_expiration < timedelta 0 0 then
                          (None,
                           emit ERROR
                             (Text (''Your application token has expired. Please contact '' @
                                    ''support@bostondynamics.com to request a new token.'')) m)
                        else if time_to_expiration \<le> timedelta 30 0 then
                          (None,
                           emit WARNING
                             (Text (''Application token expires in '' @
                                    str_int (timedelta_days time_to_expiration) @
                                    '' days on '' @ strftime_Ymd expire_time @
                                    ''. Please contact '' @
                                    ''support@bostondynamics.com to request a new token before the '' @
                                    ''current token expires.'')) m)
                        else
                          (None,
                           emit INFO
                             (Text (''Application token expires on '' @
                                    strftime_Ymd expire_time @ ''.'')) m)))))"

text \<open>
  The body of the \<^verbatim>\<open>try\<close> of \<^verbatim>\<open>load_app_token\<close>: the token read, or the exception that
  leaves the body.
\<close>

definition load_app_token_try :: "env \<Rightarrow> string \<Rightarrow> module \<Rightarrow> (exc + string) \<times> module" where
  "load_app_token_try e resource_path m =
     (case open_read e (expanduser e resource_path) of
        Inl (n, msg) \<Rightarrow> (Inl (IOError_os n msg (expanduser e resource_path)), m)
      | Inr b \<Rightarrow>
          (case bytes_decode e b of
             Inl msg \<Rightarrow> (Inl (OtherException ''UnicodeDecodeError'' msg), m)
           | Inr txt \<Rightarrow>
               (let token = strip txt
                in case log_token_time_remaining e token m of
                     (Some x, m') \<Rightarrow> (Inl x, m')
                   | (None, m') \<Rightarrow> (Inr token, m'))))"

text \<open>
  \<^verbatim>\<open>Sdk.load_app_token(resource_path)\<close>. \<^verbatim>\<open>not resource_path\<close> holds of \<^verbatim>\<open>None\<close> and of
  the empty string.
\<close>

definition load_app_token ::
    "env \<Rightarrow> sdk \<Rightarrow> pyval \<Rightarrow> module \<Rightarrow> exc option \<times> sdk \<times> module" where
  \<open>load_app_token e s resource_path m =
     (case resource_path of
        PNone \<Rightarrow> (Some UnsetAppTokenError, s, m)
      | PStr p \<Rightarrow>
          if p = [] then (Some UnsetAppTokenError, s, m)
          else
            (case load_app_token_try e p m of
               (Inr token, m') \<Rightarrow> (None, s\<lparr> app_token := Some token \<rparr>, m')
             | (Inl x, m') \<Rightarrow>
                 if is_IOError x then
                   (Some (UnableToLoadAppTokenError
                            (''Unable to retrieve app token from "'' @ p @ ''".'')),
                    s, emit ERROR (ExcInfo x) m')
                 else if is_TypeError x then
                   (Some UnsetAppTokenError, s, emit ERROR (ExcInfo x) m')
                 else (Some x, s, m')))\<close>

text \<open>The loop of \<^verbatim>\<open>create_standard_sdk\<close> that registers each client with its defaults.\<close>

fun register_all :: "sdk \<Rightarrow> factory list \<Rightarrow> exc option \<times> sdk" where
  "register_all s [] = (None, s)"
| "register_all s (client # cs) =
     (case register_service_client s client PNone PNone of
        (Some x, s') \<Rightarrow> (Some x, s')
      | (None, s') \<Rightarrow> register_all s' cs)"

text \<open>
  \<^verbatim>\<open>create_standard_sdk(client_name_prefix, service_clients, cert_resource_glob)\<close>.
  \<^verbatim>\<open>all_service_clients\<close> is bound to the module's list object itself, so \<^verbatim>\<open>+=\<close> extends
  that list in place.
\<close>

definition create_standard_sdk ::
    "env \<Rightarrow> string \<Rightarrow> factory list option \<Rightarrow> string option \<Rightarrow> module \<Rightarrow> (exc + sdk) \<times> module" where
  \<open>create_standard_sdk e client_name_prefix service_clients cert_resource_glob m =
     (let m1 = emit DEBUG
                 (Text (''Creating standard Sdk, cert glob: "'' @
                        (case cert_resource_glob of None \<Rightarrow> ''None'' | Some g \<Rightarrow> g) @ ''"'')) m;
          sdk0 = Sdk_init (Some client_name_prefix)
      in case generate_client_name e client_name_prefix m1 of
           (client_name, m2) \<Rightarrow>
             (case load_robot_cert e sdk0 cert_resource_glob of
                (Some x, sdk1) \<Rightarrow> (Inl x, m2)
              | (None, sdk1) \<Rightarrow>
                  (let sdk2 = sdk1\<lparr> request_processors :=
                                      request_processors sdk1 @ [AddRequestHeader client_name] \<rparr>;
                       m3 = (case service_clients of
                               None \<Rightarrow> m2
                             | Some extra \<Rightarrow>
                                 if extra \<noteq> []
                                 then m2\<lparr> DEFAULT_SERVICE_CLIENTS :=
                                            DEFAULT_SERVICE_CLIENTS m2 @ extra \<rparr>
                                 else m2);
                       all_service_clients = DEFAULT_SERVICE_CLIENTS m3
                   in case register_all sdk2 all_service_clients of
                        (Some x, sdk3) \<Rightarrow> (Inl x, m3)
                      | (None, sdk3) \<Rightarrow> (Inr sdk3, m3))))\<close>

section \<open>The certificate bundle as the specification words it\<close>

text \<open>
  The specification's \<^verbatim>\<open>loadFromGlob\<close>: the bytes of the matched regular files, taken in
  lexicographic path order (\<open>sort\<close> on strings). \<open>contents\<close> gives the bytes of each file.
\<close>

definition loadFromGlob_sorted :: "env \<Rightarrow> (string \<Rightarrow> bytes) \<Rightarrow> string \<Rightarrow> bytes" where
  "loadFromGlob_sorted e contents g = concat (map contents (sort (filter (isfile e) (glob e g))))"

section \<open>Sample inputs\<close>

text \<open>Service client classes: two with both class attributes, one with neither, one that
  declares both as \<^verbatim>\<open>None\<close>, one with a name and no type, and one more to pass as an
  extra.\<close>

definition NoneClient :: factory where
  "NoneClient = \<lparr> factory_class = ''NoneClient'',
                  default_service_name = Some PNone, service_type = Some PNone \<rparr>"

definition NameOnlyClient :: factory where
  "NameOnlyClient = \<lparr> factory_class = ''NameOnlyClient'',
                      default_service_name = Some (PStr ''name-only''), service_type = None \<rparr>"

definition AuthClient :: factory where
  "AuthClient = \<lparr> factory_class = ''AuthClient'',
                  default_service_name = Some (PStr ''auth''),
                  service_type = Some (PStr ''bosdyn.api.AuthService'') \<rparr>"

definition ImageClient :: factory where
  "ImageClient = \<lparr> factory_class = ''ImageClient'',
                   default_service_name = Some (PStr ''image''),
                   service_type = Some (PStr ''bosdyn.api.ImageService'') \<rparr>"

definition BareClient :: factory where
  "BareClient = \<lparr> factory_class = ''BareClient'',
                  default_service_name = None, service_type = None \<rparr>"

definition ExtraClient :: factory where
  "ExtraClient = \<lparr> factory_class = ''ExtraClient'',
                   default_service_name = Some (PStr ''extra''),
                   service_type = Some (PStr ''example.ExtraService'') \<rparr>"

definition sample_module :: module where
  "sample_module = \<lparr> DEFAULT_SERVICE_CLIENTS = [AuthClient, ImageClient], LOGGER = [] \<rparr>"

text \<open>
  The failures of \<^verbatim>\<open>datetime.datetime.fromtimestamp\<close> on the sample hosts, given the offset
  of their time zone: an \<^verbatim>\<open>OverflowError\<close> outside the 64-bit times, an \<^verbatim>\<open>OSError\<close> with
  errno 75 where the C library cannot give a year, a \<^verbatim>\<open>ValueError\<close> where the local year,
  or the year a day earlier, is not one of 1 to 9999.
\<close>

definition linux_fromtimestamp_error :: "(int \<Rightarrow> int) \<Rightarrow> int \<Rightarrow> exc option" where
  "linux_fromtimestamp_error offset t =
     (if t < - (2 ^ 63) \<or> 2 ^ 63 \<le> t then
        Some (OtherException ''OverflowError'' ''timestamp out of range for platform time_t'')
      else if t < - 67768040609740800 \<or> 67768036191676799 < t then
        Some (IOError_os 75 ''Value too large for defined data type'' [])
      else if t + offset t < - 62135596800 + 86400 \<or> 253402300799 < t + offset t then
        Some (OtherException ''ValueError'' ''year is out of range'')
      else None)"

text \<open>
  A host whose local time is UTC, at POSIX time 1800000000. Its directory \<^verbatim>\<open>certs\<close> holds
  two certificates, which \<^verbatim>\<open>glob.glob\<close> lists in directory order, \<^verbatim>\<open>cert2.pem\<close> first.
  Its token file holds a token that expired one second ago.
\<close>

definition utc_host :: env where
  "utc_host =
     \<lparr> glob = (\<lambda>g. if g = ''certs/*.pem'' then [''certs/cert2.pem'', ''certs/cert1.pem'']
                   else []),
       isfile = (\<lambda>p. p \<in> set [''certs/cert1.pem'', ''certs/cert2.pem'', ''/home/spot/app_token'']),
       open_read =
         (\<lambda>p. if p = ''certs/cert1.pem'' then Inr ''AAA''
              else if p = ''certs/cert2.pem'' then Inr ''BBB''
              else if p = ''/home/spot/app_token'' then Inr (''h.p.s'' @ [CHR 0x0A])
              else Inl (2, ''No such file or directory'')),
       expanduser = (\<lambda>p. if take 2 p = ''~/'' then ''/home/spot'' @ drop 1 p else p),
       resource_stream_read = (\<lambda>package resource. Inr ''PEM''),
       bytes_decode = Inr,
       jwt_decode =
         (\<lambda>t. if t = ''h.p.s'' then Inr [''exp'' \<mapsto> JInt 1799999999]
              else if t = ''h.q.s'' then Inr Map.empty
              else Inl (DecodeError ''Not enough segments'')),
       utcnow = 1800000000000000,
       utcoffset = (\<lambda>t. 0),
       fromtimestamp_error = linux_fromtimestamp_error (\<lambda>t. 0),
       main_file = Some ''/opt/app/main.py'',
       getpid = 4242,
       node = ''host1'',
       getuser = Some ''spot'' \<rparr>"

text \<open>The same host with its local time one hour ahead of UTC.\<close>

definition utc_plus1_host :: env where
  "utc_plus1_host =
     utc_host\<lparr> utcoffset := (\<lambda>t. 3600),
               fromtimestamp_error := linux_fromtimestamp_error (\<lambda>t. 3600) \<rparr>"

text \<open>The same host with one more directory, \<^verbatim>\<open>locked\<close>, whose one certificate is a
  regular file that the process is not permitted to read.\<close>

definition locked_host :: env where
  "locked_host =
     utc_host\<lparr> glob := (\<lambda>g. if g = ''locked/*.pem'' then [''locked/cert.pem''] else glob utc_host g),
               isfile := (\<lambda>p. p = ''locked/cert.pem'' \<or> isfile utc_host p),
               open_read := (\<lambda>p. if p = ''locked/cert.pem'' then Inl (13, ''Permission denied'')
                                 else open_read utc_host p) \<rparr>"

text \<open>An Sdk with a token loaded, and one with a certificate from an earlier load.\<close>

definition token_sdk :: sdk where
  "token_sdk = (Sdk_init None)\<lparr> app_token := Some ''h.p.s'' \<rparr>"

definition cert_sdk :: sdk where
  "cert_sdk = (Sdk_init None)\<lparr> cert := Some ''OLD'' \<rparr>"

text \<open>The bytes of the two sample certificates, by path.\<close>

definition sample_contents :: "string \<Rightarrow> bytes" where
  "sample_contents p = (if p = ''certs/cert1.pem'' then ''AAA'' else ''BBB'')"

section \<open>Device handles\<close>

text \<open>
  Claim C8. Without a loaded token (\<open>app_token\<close> is \<^verbatim>\<open>None\<close>), \<^verbatim>\<open>create_robot\<close> raises
  \<^verbatim>\<open>UnsetAppTokenError\<close> for every address and name, and leaves the Sdk (with its map of
  robots) and the heap of handles as they were: no handle is created or stored.
\<close>

theorem create_robot_unset_token:
  "app_token s = None \<Longrightarrow> create_robot s address nm h = (Inl UnsetAppTokenError, s, h)"
  by (simp add: create_robot_def)

theorem create_robot_unset_token_witness:
  "app_token (Sdk_init None) = None \<and>
   create_robot (Sdk_init None) ''192.168.80.3'' (Some ''Spot'') [] =
     (Inl UnsetAppTokenError, Sdk_init None, [])"
  using create_robot_unset_token [of "Sdk_init None" "''192.168.80.3''" "Some ''Spot''" "[]"]
  by (simp add: Sdk_init_def)

text \<open>
  Claim C1, as stated: after \<^verbatim>\<open>create_robot(a, n1)\<close> the handle's display name is \<open>n1\<close>
  for every name \<open>n1\<close>. It fails for the empty name: \<^verbatim>\<open>name or address\<close> takes the address
  when the name is the empty string, so the handle created for address 192.168.1.10 with
  the empty name is named 192.168.1.10.
\<close>

theorem create_robot_empty_name_counterexample:
  "fst (create_robot token_sdk ''192.168.1.10'' (Some []) []) = Inr 0 \<and>
   robot_name (snd (snd (create_robot token_sdk ''192.168.1.10'' (Some []) [])) ! 0) =
     ''192.168.1.10'' \<and>
   robot_name (snd (snd (create_robot token_sdk ''192.168.1.10'' (Some []) [])) ! 0) \<noteq> []"
  by (simp add: create_robot_def token_sdk_def Sdk_init_def Robot_init_def update_from_def Let_def)

text \<open>
  Claim C1, amended. With a token loaded, \<^verbatim>\<open>create_robot(a, n1)\<close> returns a handle, and a
  following \<^verbatim>\<open>create_robot(a, n2)\<close> returns the same reference and changes neither the Sdk
  nor the heap: \<open>n2\<close> is ignored. When the first call created the handle (the address was
  not cached), it allocated exactly one object, whose display name is \<open>n1\<close> when \<open>n1\<close> is a
  non-empty string and the address \<open>a\<close> when \<open>n1\<close> is omitted or empty.
\<close>

theorem create_robot_repeat:
  "app_token s \<noteq> None \<Longrightarrow>
   \<exists>r s1 h1. create_robot s a n1 h = (Inr r, s1, h1) \<and>
             create_robot s1 a n2 h1 = (Inr r, s1, h1) \<and>
             (robots s a = None \<longrightarrow>
                r = length h \<and> h1 = h @ [h1 ! r] \<and>
                robot_name (h1 ! r) =
                  (case n1 of None \<Rightarrow> a | Some n \<Rightarrow> if n \<noteq> [] then n else a))"
  by (cases n1; cases "robots s a")
     (auto simp: create_robot_def Let_def Robot_init_def update_from_def)

theorem create_robot_repeat_witness:
  "app_token token_sdk \<noteq> None \<and>
   (\<exists>r s1 h1. create_robot token_sdk ''192.168.1.10'' (Some ''Robot-A'') [] = (Inr r, s1, h1) \<and>
             create_robot s1 ''192.168.1.10'' (Some ''Robot-B'') h1 = (Inr r, s1, h1) \<and>
             robot_name (h1 ! r) = ''Robot-A'')"
  using create_robot_repeat [of token_sdk "''192.168.1.10''" "Some ''Robot-A''" "[]" "Some ''Robot-B''"]
  by (simp add: token_sdk_def Sdk_init_def) blast

section \<open>Service registration\<close>

text \<open>
  Claim C4, as stated: every factory that exposes no default service name and no default
  service type makes a registration with type and name omitted fail. It fails for a
  factory that declares both attributes as \<^verbatim>\<open>None\<close>: neither is a name or a type that
  resolves, yet \<^verbatim>\<open>register_service_client\<close> raises nothing and stores the type \<^verbatim>\<open>None\<close>
  under the name \<^verbatim>\<open>None\<close> and the factory under the type \<^verbatim>\<open>None\<close>.
\<close>

theorem register_service_client_none_defaults_counterexample:
  "default_service_name NoneClient = Some PNone \<and>
   service_type NoneClient = Some PNone \<and>
   \<not> truthy PNone \<and>
   fst (register_service_client (Sdk_init None) NoneClient PNone PNone) = None \<and>
   service_type_by_name
     (snd (register_service_client (Sdk_init None) NoneClient PNone PNone)) PNone = Some PNone \<and>
   service_client_factories_by_type
     (snd (register_service_client (Sdk_init None) NoneClient PNone PNone)) PNone =
     Some NoneClient"
  by (simp add: register_service_client_def getattr_default_service_name_def
        getattr_service_type_def NoneClient_def)

text \<open>
  Claim C4, amended. With type and name omitted, \<^verbatim>\<open>register_service_client\<close> fails exactly
  for a factory that lacks a class attribute: it raises \<^verbatim>\<open>AttributeError\<close> (the module has
  no RegistrationError) for \<^verbatim>\<open>default_service_name\<close> when that attribute is absent, and for
  \<^verbatim>\<open>service_type\<close> when the name is there and the type is absent, and leaves the Sdk
  unchanged. A factory that has both attributes is registered under their values, whatever
  they are (\<^verbatim>\<open>None\<close> and the empty string included), and nothing is raised.
\<close>

theorem register_service_client_defaults:
  "(default_service_name f = None \<longrightarrow>
      register_service_client s f PNone PNone =
        (Some (AttributeError (factory_class f) ''default_service_name''), s)) \<and>
   (default_service_name f = Some sn \<and> service_type f = None \<longrightarrow>
      register_service_client s f PNone PNone =
        (Some (AttributeError (factory_class f) ''service_type''), s)) \<and>
   (default_service_name f = Some sn \<and> service_type f = Some st \<longrightarrow>
      register_service_client s f PNone PNone =
        (None,
         s\<lparr> service_type_by_name := (service_type_by_name s)(sn \<mapsto> st),
            service_client_factories_by_type :=
              (service_client_factories_by_type s)(st \<mapsto> f) \<rparr>))"
  by (simp add: register_service_client_def getattr_default_service_name_def
        getattr_service_type_def)

theorem register_service_client_defaults_witness:
  "default_service_name BareClient = None \<and>
   register_service_client (Sdk_init None) BareClient PNone PNone =
     (Some (AttributeError ''BareClient'' ''default_service_name''), Sdk_init None) \<and>
   default_service_name NameOnlyClient = Some (PStr ''name-only'') \<and>
   service_type NameOnlyClient = None \<and>
   register_service_client (Sdk_init None) NameOnlyClient PNone PNone =
     (Some (AttributeError ''NameOnlyClient'' ''service_type''), Sdk_init None) \<and>
   default_service_name AuthClient = Some (PStr ''auth'') \<and>
   service_type AuthClient = Some (PStr ''bosdyn.api.AuthService'') \<and>
   register_service_client (Sdk_init None) AuthClient PNone PNone =
     (None,
      (Sdk_init None)
        \<lparr> service_type_by_name :=
            (service_type_by_name (Sdk_init None))
              (PStr ''auth'' \<mapsto> PStr ''bosdyn.api.AuthService''),
          service_client_factories_by_type :=
            (service_client_factories_by_type (Sdk_init None))
              (PStr ''bosdyn.api.AuthService'' \<mapsto> AuthClient) \<rparr>)"
proof -
  have b: "default_service_name BareClient = None" "factory_class BareClient = ''BareClient''"
    by (simp_all add: BareClient_def)
  have n: "default_service_name NameOnlyClient = Some (PStr ''name-only'')"
    "service_type NameOnlyClient = None" "factory_class NameOnlyClient = ''NameOnlyClient''"
    by (simp_all add: NameOnlyClient_def)
  have a: "default_service_name AuthClient = Some (PStr ''auth'')"
    "service_type AuthClient = Some (PStr ''bosdyn.api.AuthService'')"
    by (simp_all add: AuthClient_def)
  from register_service_client_defaults [of BareClient "Sdk_init None"] b
  have 1: "register_service_client (Sdk_init None) BareClient PNone PNone =
     (Some (AttributeError ''BareClient'' ''default_service_name''), Sdk_init None)"
    by simp
  from register_service_client_defaults
         [of NameOnlyClient "Sdk_init None" "PStr ''name-only''"] n
  have 2: "register_service_client (Sdk_init None) NameOnlyClient PNone PNone =
     (Some (AttributeError ''NameOnlyClient'' ''service_type''), Sdk_init None)"
    by simp
  from register_service_client_defaults
         [of AuthClient "Sdk_init None" "PStr ''auth''" "PStr ''bosdyn.api.AuthService''"] a
  have 3: "register_service_client (Sdk_init None) AuthClient PNone PNone =
     (None,
      (Sdk_init None)
        \<lparr> service_type_by_name :=
            (service_type_by_name (Sdk_init None))
              (PStr ''auth'' \<mapsto> PStr ''bosdyn.api.AuthService''),
          service_client_factories_by_type :=
            (service_client_factories_by_type (Sdk_init None))
              (PStr ''bosdyn.api.AuthService'' \<mapsto> AuthClient) \<rparr>)"
    by simp
  from b(1) n(1,2) a 1 2 3 show ?thesis by blast
qed

section \<open>The certificate bundle\<close>

text \<open>
  The loop ends without an exception when every file of the list is read; otherwise it
  raises the operating system's error for a file of the list that cannot be read.
\<close>

lemma read_certs_result:
  "(fst (read_certs e ps acc) = None \<and> (\<forall>p \<in> set ps. \<exists>b. open_read e p = Inr b)) \<or>
   (\<exists>n msg p. p \<in> set ps \<and> open_read e p = Inl (n, msg) \<and>
               fst (read_certs e ps acc) = Some (IOError_os n msg p))"
proof (induction ps arbitrary: acc)
  case Nil
  then show ?case by simp
next
  case (Cons a ps)
  show ?case
  proof (cases "open_read e a")
    case (Inl x)
    then show ?thesis by (cases x) auto
  next
    case (Inr b)
    with Cons.IH [of "acc @ b"] show ?thesis by auto
  qed
qed

text \<open>When every file is read, the loop appends their bytes in the order of the list.\<close>

lemma read_certs_all_read:
  "\<forall>p \<in> set ps. open_read e p = Inr (contents p) \<Longrightarrow>
   read_certs e ps acc = (None, acc @ concat (map contents ps))"
  by (induction ps arbitrary: acc) simp_all

text \<open>
  Claim C7, as stated: \<^verbatim>\<open>load_robot_cert(glob)\<close> raises its CertificateNotFoundError, which
  in the module is an \<^verbatim>\<open>IOError\<close>, only if the glob's matches, filtered to regular files,
  are none. It fails where a matched regular file cannot be read: the filtered matches are
  not empty, and the call raises an exception of the same class, \<^verbatim>\<open>IOError\<close>, as it does
  for no match at all.
\<close>

theorem load_robot_cert_unreadable_counterexample:
  "filter (isfile locked_host) (glob locked_host ''locked/*.pem'') = [''locked/cert.pem''] \<and>
   map_option exc_class_name
     (fst (load_robot_cert locked_host cert_sdk (Some ''locked/*.pem''))) = Some ''IOError'' \<and>
   filter (isfile utc_host) (glob utc_host ''none/*.pem'') = [] \<and>
   map_option exc_class_name
     (fst (load_robot_cert utc_host cert_sdk (Some ''none/*.pem''))) = Some ''IOError''"
proof -
  have f: "filter (isfile locked_host) (glob locked_host ''locked/*.pem'') = [''locked/cert.pem'']"
    by (simp add: locked_host_def)
  have r: "open_read locked_host ''locked/cert.pem'' = Inl (13, ''Permission denied'')"
    by (simp add: locked_host_def)
  have g: "filter (isfile utc_host) (glob utc_host ''none/*.pem'') = []"
    by (simp add: utc_host_def)
  show ?thesis
    by (simp add: load_robot_cert_def Let_def f r g)
qed

text \<open>
  Claim C7, amended. When the glob's matches, filtered to regular files, are none,
  \<^verbatim>\<open>load_robot_cert(glob)\<close> raises the \<^verbatim>\<open>IOError\<close> with message
  \<^verbatim>\<open>No files matched "<glob>"\<close> and leaves the certificate \<^verbatim>\<open>None\<close>, never the packaged
  default. When they are not none, it raises nothing if every matched file is read, and
  otherwise raises the operating system's \<^verbatim>\<open>IOError\<close> for a matched file that cannot be
  read. Every exception it raises is of class \<^verbatim>\<open>IOError\<close>, so the two failures differ in
  their arguments, not in their class.
\<close>

theorem load_robot_cert_raises:
  "(filter (isfile e) (glob e g) = [] \<longrightarrow>
      load_robot_cert e s (Some g) =
        (Some (IOError_msg (''No files matched '' @ [CHR 0x22] @ g @ [CHR 0x22])),
         s\<lparr> cert := None \<rparr>)) \<and>
   (filter (isfile e) (glob e g) \<noteq> [] \<longrightarrow>
      (fst (load_robot_cert e s (Some g)) = None \<and>
       (\<forall>p \<in> set (filter (isfile e) (glob e g)). \<exists>b. open_read e p = Inr b)) \<or>
      (\<exists>n msg p. p \<in> set (filter (isfile e) (glob e g)) \<and> open_read e p = Inl (n, msg) \<and>
                  fst (load_robot_cert e s (Some g)) = Some (IOError_os n msg p))) \<and>
   (\<forall>x. fst (load_robot_cert e s (Some g)) = Some x \<longrightarrow> exc_class_name x = ''IOError'')"
proof -
  have 1: "filter (isfile e) (glob e g) = [] \<Longrightarrow>
      load_robot_cert e s (Some g) =
        (Some (IOError_msg (''No files matched '' @ [CHR 0x22] @ g @ [CHR 0x22])),
         s\<lparr> cert := None \<rparr>)"
    by (simp add: load_robot_cert_def)
  have eq: "filter (isfile e) (glob e g) \<noteq> [] \<Longrightarrow>
        fst (load_robot_cert e s (Some g)) = fst (read_certs e (filter (isfile e) (glob e g)) [])"
    by (simp add: load_robot_cert_def Let_def split: prod.splits)
  have 2: "(fst (load_robot_cert e s (Some g)) = None \<and>
       (\<forall>p \<in> set (filter (isfile e) (glob e g)). \<exists>b. open_read e p = Inr b)) \<or>
      (\<exists>n msg p. p \<in> set (filter (isfile e) (glob e g)) \<and> open_read e p = Inl (n, msg) \<and>
                  fst (load_robot_cert e s (Some g)) = Some (IOError_os n msg p))"
    if ne: "filter (isfile e) (glob e g) \<noteq> []"
    using read_certs_result [of e "filter (isfile e) (glob e g)" "[]"] eq [OF ne] by simp
  have 3: "exc_class_name x = ''IOError''" if x: "fst (load_robot_cert e s (Some g)) = Some x" for x
  proof (cases "filter (isfile e) (glob e g) = []")
    case True
    with 1 x show ?thesis by auto
  next
    case False
    with 2 x show ?thesis by auto
  qed
  from 1 2 3 show ?thesis by blast
qed

theorem load_robot_cert_raises_witness:
  "filter (isfile utc_host) (glob utc_host ''none/*.pem'') = [] \<and>
   load_robot_cert utc_host cert_sdk (Some ''none/*.pem'') =
     (Some (IOError_msg (''No files matched '' @ [CHR 0x22] @ ''none/*.pem'' @ [CHR 0x22])),
      cert_sdk\<lparr> cert := None \<rparr>) \<and>
   filter (isfile locked_host) (glob locked_host ''locked/*.pem'') = [''locked/cert.pem''] \<and>
   open_read locked_host ''locked/cert.pem'' = Inl (13, ''Permission denied'') \<and>
   fst (load_robot_cert locked_host cert_sdk (Some ''locked/*.pem'')) =
     Some (IOError_os 13 ''Permission denied'' ''locked/cert.pem'') \<and>
   exc_class_name (IOError_os 13 ''Permission denied'' ''locked/cert.pem'') = ''IOError'' \<and>
   filter (isfile utc_host) (glob utc_host ''certs/*.pem'') =
     [''certs/cert2.pem'', ''certs/cert1.pem''] \<and>
   fst (load_robot_cert utc_host cert_sdk (Some ''certs/*.pem'')) = None"
proof -
  have g: "filter (isfile utc_host) (glob utc_host ''none/*.pem'') = []"
    by (simp add: utc_host_def)
  have f: "filter (isfile locked_host) (glob locked_host ''locked/*.pem'') = [''locked/cert.pem'']"
    by (simp add: locked_host_def)
  have r: "open_read locked_host ''locked/cert.pem'' = Inl (13, ''Permission denied'')"
    by (simp add: locked_host_def)
  have c: "filter (isfile utc_host) (glob utc_host ''certs/*.pem'') =
             [''certs/cert2.pem'', ''certs/cert1.pem'']"
    by (simp add: utc_host_def)
  have c1: "open_read utc_host ''certs/cert1.pem'' = Inr ''AAA''"
    and c2: "open_read utc_host ''certs/cert2.pem'' = Inr ''BBB''"
    by (simp_all add: utc_host_def)
  from load_robot_cert_raises [of utc_host "''none/*.pem''" cert_sdk] g
  have 1: "load_robot_cert utc_host cert_sdk (Some ''none/*.pem'') =
     (Some (IOError_msg (''No files matched '' @ [CHR 0x22] @ ''none/*.pem'' @ [CHR 0x22])),
      cert_sdk\<lparr> cert := None \<rparr>)"
    by simp
  from load_robot_cert_raises [of locked_host "''locked/*.pem''" cert_sdk] f r
  have 2: "fst (load_robot_cert locked_host cert_sdk (Some ''locked/*.pem'')) =
     Some (IOError_os 13 ''Permission denied'' ''locked/cert.pem'')"
    by auto
  from load_robot_cert_raises [of locked_host "''locked/*.pem''" cert_sdk] 2
  have 3: "exc_class_name (IOError_os 13 ''Permission denied'' ''locked/cert.pem'') = ''IOError''"
    by blast
  from load_robot_cert_raises [of utc_host "''certs/*.pem''" cert_sdk] c c1 c2
  have 4: "fst (load_robot_cert utc_host cert_sdk (Some ''certs/*.pem'')) = None"
    by auto
  from g 1 f r 2 3 c 4 show ?thesis by blast
qed

text \<open>
  Claim C10. \<^verbatim>\<open>load_robot_cert\<close> sets \<^verbatim>\<open>self.cert = None\<close> before it loads anything: when
  the glob matches no regular file, the call raises and leaves the Sdk with certificate
  \<^verbatim>\<open>None\<close>, whatever the certificate was before.
\<close>

theorem load_robot_cert_clears_first:
  "filter (isfile e) (glob e g) = [] \<Longrightarrow>
   load_robot_cert e s (Some g) =
     (Some (IOError_msg (''No files matched '' @ [CHR 0x22] @ g @ [CHR 0x22])),
      s\<lparr> cert := None \<rparr>)"
  by (simp add: load_robot_cert_def)

theorem load_robot_cert_clears_first_witness:
  "cert cert_sdk = Some ''OLD'' \<and>
   filter (isfile utc_host) (glob utc_host ''none/*.pem'') = [] \<and>
   cert (snd (load_robot_cert utc_host cert_sdk (Some ''none/*.pem''))) = None"
  using load_robot_cert_clears_first [of utc_host "''none/*.pem''" cert_sdk]
  by (simp add: utc_host_def cert_sdk_def)

text \<open>
  Claim C2, as stated: the bundle is the bytes of the matched files in lexicographic path
  order. It fails where \<^verbatim>\<open>glob.glob\<close> lists \<^verbatim>\<open>cert2.pem\<close> before \<^verbatim>\<open>cert1.pem\<close>: the module
  does not sort, so the bundle is the bytes of \<^verbatim>\<open>cert2.pem\<close> followed by those of
  \<^verbatim>\<open>cert1.pem\<close>.
\<close>

theorem load_robot_cert_unsorted_counterexample:
  "cert (snd (load_robot_cert utc_host cert_sdk (Some ''certs/*.pem''))) = Some ''BBBAAA'' \<and>
   loadFromGlob_sorted utc_host sample_contents ''certs/*.pem'' = ''AAABBB'' \<and>
   cert (snd (load_robot_cert utc_host cert_sdk (Some ''certs/*.pem''))) \<noteq>
     Some (loadFromGlob_sorted utc_host sample_contents ''certs/*.pem'')"
proof -
  have f: "filter (isfile utc_host) (glob utc_host ''certs/*.pem'') =
             [''certs/cert2.pem'', ''certs/cert1.pem'']"
    by (simp add: utc_host_def)
  have srt: "sort [''certs/cert2.pem'', ''certs/cert1.pem''] =
               [''certs/cert1.pem'', ''certs/cert2.pem'']"
    by code_simp
  have a: "cert (snd (load_robot_cert utc_host cert_sdk (Some ''certs/*.pem''))) = Some ''BBBAAA''"
    by (simp add: load_robot_cert_def Let_def f) (simp add: utc_host_def)
  have b: "loadFromGlob_sorted utc_host sample_contents ''certs/*.pem'' = ''AAABBB''"
    unfolding loadFromGlob_sorted_def f srt by (simp add: sample_contents_def)
  show ?thesis unfolding a b by simp
qed

text \<open>
  Claim C2, amended. When the glob matches at least one regular file and each matched file
  is read, \<^verbatim>\<open>load_robot_cert\<close> stores the bytes of the matched regular files concatenated
  in the order in which \<^verbatim>\<open>glob.glob\<close> lists them (the module applies no sort); the bundle
  depends on nothing but that list and the bytes of the files.
\<close>

theorem load_robot_cert_glob_order:
  "filter (isfile e) (glob e g) \<noteq> [] \<Longrightarrow>
   \<forall>p \<in> set (filter (isfile e) (glob e g)). open_read e p = Inr (contents p) \<Longrightarrow>
   load_robot_cert e s (Some g) =
     (None, s\<lparr> cert := Some (concat (map contents (filter (isfile e) (glob e g)))) \<rparr>)"
  using read_certs_all_read [of "filter (isfile e) (glob e g)" e contents "[]"]
  by (simp add: load_robot_cert_def Let_def)

theorem load_robot_cert_glob_order_witness:
  "filter (isfile utc_host) (glob utc_host ''certs/*.pem'') =
     [''certs/cert2.pem'', ''certs/cert1.pem''] \<and>
   open_read utc_host ''certs/cert2.pem'' = Inr (sample_contents ''certs/cert2.pem'') \<and>
   open_read utc_host ''certs/cert1.pem'' = Inr (sample_contents ''certs/cert1.pem'') \<and>
   cert (snd (load_robot_cert utc_host cert_sdk (Some ''certs/*.pem''))) = Some ''BBBAAA''"
proof -
  have f: "filter (isfile utc_host) (glob utc_host ''certs/*.pem'') =
             [''certs/cert2.pem'', ''certs/cert1.pem'']"
    by (simp add: utc_host_def)
  have r: "\<forall>p \<in> set (filter (isfile utc_host) (glob utc_host ''certs/*.pem'')).
             open_read utc_host p = Inr (sample_contents p)"
    unfolding f by (simp add: utc_host_def sample_contents_def)
  have n: "filter (isfile utc_host) (glob utc_host ''certs/*.pem'') \<noteq> []"
    unfolding f by simp
  show ?thesis
    using load_robot_cert_glob_order [OF n r, of cert_sdk] f r
    by (simp add: sample_contents_def del: filter.simps)
qed

section \<open>Loading the application token\<close>

text \<open>
  Claim C5. \<^verbatim>\<open>load_app_token\<close> raises \<^verbatim>\<open>UnsetAppTokenError\<close> for every path that is
  \<^verbatim>\<open>None\<close> or empty, leaving the Sdk and the log unchanged; and for every non-empty path
  whose file cannot be opened or read (the operating system's error, file not found
  included) it raises \<^verbatim>\<open>UnableToLoadAppTokenError\<close>, after logging the error. So an empty
  path never gives \<^verbatim>\<open>UnableToLoadAppTokenError\<close> and an I/O failure never gives
  \<^verbatim>\<open>UnsetAppTokenError\<close>.
\<close>

theorem load_app_token_errors:
  "(\<not> truthy p \<longrightarrow> load_app_token e s p m = (Some UnsetAppTokenError, s, m)) \<and>
   (q \<noteq> [] \<and> open_read e (expanduser e q) = Inl (n, msg) \<longrightarrow>
      load_app_token e s (PStr q) m =
        (Some (UnableToLoadAppTokenError
                 (''Unable to retrieve app token from '' @ [CHR 0x22] @ q @ [CHR 0x22] @ ''.'')),
         s, emit ERROR (ExcInfo (IOError_os n msg (expanduser e q))) m))"
  by (cases p) (simp_all add: load_app_token_def load_app_token_try_def)

theorem load_app_token_errors_witness:
  "\<not> truthy (PStr []) \<and>
   fst (load_app_token utc_host (Sdk_init None) (PStr []) sample_module) =
     Some UnsetAppTokenError \<and>
   ''/nonexistent/path'' \<noteq> [] \<and>
   open_read utc_host (expanduser utc_host ''/nonexistent/path'') =
     Inl (2, ''No such file or directory'') \<and>
   fst (load_app_token utc_host (Sdk_init None) (PStr ''/nonexistent/path'') sample_module) =
     Some (UnableToLoadAppTokenError
             (''Unable to retrieve app token from '' @ [CHR 0x22] @ ''/nonexistent/path'' @
              [CHR 0x22] @ ''.''))"
  using load_app_token_errors [of "PStr []" utc_host "Sdk_init None" sample_module
          "''/nonexistent/path''" 2 "''No such file or directory''"]
  by (simp add: utc_host_def)

section \<open>Decoding the token and its expiry\<close>

text \<open>
  Claim C6, as stated: the error raised for a token that cannot be decoded, and the one
  raised for a token without \<^verbatim>\<open>exp\<close>, are of a kind distinct from the error for an
  unreadable token file. It fails: all three are \<^verbatim>\<open>UnableToLoadAppTokenError\<close>, the one
  exception class the module has for them.
\<close>

theorem malformed_unreadable_same_class_counterexample:
  "isl (decode_token utc_host ''garbage'') \<and>
   exc_class_name (projl (decode_token utc_host ''garbage'')) = ''UnableToLoadAppTokenError'' \<and>
   map_option exc_class_name (fst (log_token_time_remaining utc_host ''h.q.s'' sample_module)) =
     Some ''UnableToLoadAppTokenError'' \<and>
   map_option exc_class_name
     (fst (load_app_token utc_host (Sdk_init None) (PStr ''/nonexistent/path'') sample_module)) =
     Some ''UnableToLoadAppTokenError''"
proof -
  have a: "jwt_decode utc_host ''garbage'' = Inl (DecodeError ''Not enough segments'')"
    by (simp add: utc_host_def)
  have b: "jwt_decode utc_host ''h.q.s'' = Inr Map.empty"
    by (simp add: utc_host_def)
  have c: "open_read utc_host (expanduser utc_host ''/nonexistent/path'') =
             Inl (2, ''No such file or directory'')"
    by (simp add: utc_host_def)
  show ?thesis
    by (simp add: decode_token_def log_token_time_remaining_def load_app_token_def
                  load_app_token_try_def a b c)
qed

text \<open>
  Claim C6, amended. When \<^verbatim>\<open>jwt.decode\<close> fails, \<^verbatim>\<open>decode_token\<close> raises
  \<^verbatim>\<open>UnableToLoadAppTokenError\<close> with a message that ends with the token and the text of
  the decode failure; when the decoded claims lack \<^verbatim>\<open>exp\<close>, \<^verbatim>\<open>log_token_time_remaining\<close>
  raises \<^verbatim>\<open>UnableToLoadAppTokenError('Unknown token expiration')\<close> and logs nothing. An
  unreadable token file raises the same class, \<^verbatim>\<open>UnableToLoadAppTokenError\<close>: the three
  cases differ in their messages only.
\<close>

theorem malformed_token_same_class:
  "(jwt_decode e token = Inl f \<longrightarrow>
      decode_token e token =
        Inl (UnableToLoadAppTokenError
               ((case f of DecodeError x \<Rightarrow> ''Incorrectly formatted token ''
                         | OtherJwtError x \<Rightarrow> ''Problem decoding token '') @
                token @ '' --- '' @ jwt_failure_str f))) \<and>
   (jwt_decode e token = Inr token_values \<and> token_values ''exp'' = None \<longrightarrow>
      log_token_time_remaining e token m =
        (Some (UnableToLoadAppTokenError ''Unknown token expiration''), m)) \<and>
   (q \<noteq> [] \<and> open_read e (expanduser e q) = Inl (n, msg) \<longrightarrow>
      (\<exists>u. fst (load_app_token e s (PStr q) m) = Some (UnableToLoadAppTokenError u) \<and>
           u \<noteq> ''Unknown token expiration'' \<and>
           u \<noteq> ''Incorrectly formatted token '' @ token @ '' --- '' @ jwt_failure_str f \<and>
           u \<noteq> ''Problem decoding token '' @ token @ '' --- '' @ jwt_failure_str f))"
  by (cases f)
     (auto simp: decode_token_def log_token_time_remaining_def load_app_token_def
                 load_app_token_try_def)

theorem malformed_token_same_class_witness:
  "jwt_decode utc_host ''garbage'' = Inl (DecodeError ''Not enough segments'') \<and>
   decode_token utc_host ''garbage'' =
     Inl (UnableToLoadAppTokenError ''Incorrectly formatted token garbage --- Not enough segments'') \<and>
   jwt_decode utc_host ''h.q.s'' = Inr Map.empty \<and>
   log_token_time_remaining utc_host ''h.q.s'' sample_module =
     (Some (UnableToLoadAppTokenError ''Unknown token expiration''), sample_module) \<and>
   open_read utc_host (expanduser utc_host ''/nonexistent/path'') = Inl (2, ''No such file or directory'') \<and>
   (\<exists>u. fst (load_app_token utc_host (Sdk_init None) (PStr ''/nonexistent/path'') sample_module) =
          Some (UnableToLoadAppTokenError u))"
proof -
  have a: "jwt_decode utc_host ''garbage'' = Inl (DecodeError ''Not enough segments'')"
    by (simp add: utc_host_def)
  have b: "jwt_decode utc_host ''h.q.s'' = Inr Map.empty"
    by (simp add: utc_host_def)
  have c: "open_read utc_host (expanduser utc_host ''/nonexistent/path'') =
             Inl (2, ''No such file or directory'')"
    by (simp add: utc_host_def)
  from malformed_token_same_class
         [of utc_host "''garbage''" "DecodeError ''Not enough segments''" Map.empty
             sample_module "''/nonexistent/path''" 2 "''No such file or directory''" "Sdk_init None"]
       a c
  have 1: "decode_token utc_host ''garbage'' =
     Inl (UnableToLoadAppTokenError ''Incorrectly formatted token garbage --- Not enough segments'')"
    and 3: "\<exists>u. fst (load_app_token utc_host (Sdk_init None) (PStr ''/nonexistent/path'') sample_module) =
          Some (UnableToLoadAppTokenError u)"
    by auto
  from malformed_token_same_class
         [of utc_host "''h.q.s''" "DecodeError ''Not enough segments''" Map.empty
             sample_module "''/nonexistent/path''" 2 "''No such file or directory''" "Sdk_init None"]
       b
  have 2: "log_token_time_remaining utc_host ''h.q.s'' sample_module =
     (Some (UnableToLoadAppTokenError ''Unknown token expiration''), sample_module)"
    by simp
  from a b c 1 2 3 show ?thesis by blast
qed

text \<open>
  The level logged for a token whose \<^verbatim>\<open>exp\<close> is an integer that the platform
  converts: it is decided by
  \<open>exp + utcoffset\<close> against the UTC clock, since \<^verbatim>\<open>fromtimestamp\<close> gives local time and
  \<^verbatim>\<open>utcnow\<close> gives UTC. Where the local zone is UTC this is \<open>exp - now\<close>.
\<close>

lemma log_token_time_remaining_levels:
  assumes "jwt_decode e token = Inr token_values"
    and "token_values ''exp'' = Some (JInt n)"
    and "fromtimestamp_error e n = None"
  shows "\<exists>txt. log_token_time_remaining e token m =
           (None,
            emit (if (n + utcoffset e n) * 1000000 - utcnow e < 0 then ERROR
                  else if (n + utcoffset e n) * 1000000 - utcnow e \<le> 30 * 86400 * 1000000
                       then WARNING else INFO)
                 (Text txt) m)"
  using assms
  by (auto simp: log_token_time_remaining_def decode_token_def datetime_fromtimestamp_def
        datetime_utcnow_def timedelta_def Let_def)

lemma strftime_sample: "strftime_Ymd 1800003599000000 = ''2027/01/15''"
  by code_simp

lemma str_int_zero: "str_int 0 = ''0''"
  by code_simp

text \<open>
  Claim C3 at a failing input. On a host one hour ahead of UTC, at POSIX time 1800000000,
  a token with \<^verbatim>\<open>exp = 1799999999\<close> expired one second ago (\<open>remaining = -1\<close> second), so
  the claim has it logged at error severity. \<^verbatim>\<open>log_token_time_remaining\<close> subtracts the UTC
  clock from the local reading of \<^verbatim>\<open>exp\<close>, gets 3599 seconds, and logs a warning that the
  token expires in 0 days.
\<close>

theorem log_token_time_remaining_local_clock:
  "utcnow utc_plus1_host = 1800000000 * 1000000 \<and>
   utcoffset utc_plus1_host 1799999999 = 3600 \<and>
   (\<exists>token_values. jwt_decode utc_plus1_host ''h.p.s'' = Inr token_values \<and>
                    token_values ''exp'' = Some (JInt (1800000000 - 1))) \<and>
   log_token_time_remaining utc_plus1_host ''h.p.s'' sample_module =
     (None,
      sample_module\<lparr> LOGGER :=
        [(WARNING,
          Text (''Application token expires in 0 days on 2027/01/15. Please contact '' @
                ''support@bostondynamics.com to request a new token before the '' @
                ''current token expires.''))] \<rparr>)"
proof -
  have d: "jwt_decode utc_plus1_host ''h.p.s'' = Inr [''exp'' \<mapsto> JInt 1799999999]"
    by (simp add: utc_plus1_host_def utc_host_def)
  have o: "utcoffset utc_plus1_host 1799999999 = 3600"
    by (simp add: utc_plus1_host_def)
  have u: "utcnow utc_plus1_host = 1800000000000000"
    by (simp add: utc_plus1_host_def utc_host_def)
  have c: "fromtimestamp_error utc_plus1_host 1799999999 = None"
    by (simp add: utc_plus1_host_def linux_fromtimestamp_error_def)
  have f: "datetime_fromtimestamp utc_plus1_host (JInt 1799999999) = Inr 1800003599000000"
    by (simp add: datetime_fromtimestamp_def o c)
  have l: "LOGGER sample_module = []"
    by (simp add: sample_module_def)
  have r: "log_token_time_remaining utc_plus1_host ''h.p.s'' sample_module =
     (None,
      sample_module\<lparr> LOGGER :=
        [(WARNING,
          Text (''Application token expires in 0 days on 2027/01/15. Please contact '' @
                ''support@bostondynamics.com to request a new token before the '' @
                ''current token expires.''))] \<rparr>)"
    by (simp add: log_token_time_remaining_def decode_token_def d f u l datetime_utcnow_def
          timedelta_def timedelta_days_def emit_def strftime_sample str_int_zero)
  show ?thesis using d o u r by simp
qed

section \<open>The standard Sdk and the shared list of default clients\<close>

text \<open>
  A successful registration with defaults stores the factory's two attributes; later
  registrations keep every name registered and replace a type's factory only by another
  factory of that type.
\<close>

lemma register_service_client_ok:
  "register_service_client s f PNone PNone = (None, s') \<Longrightarrow>
   \<exists>sn st. default_service_name f = Some sn \<and> service_type f = Some st \<and>
     s' = s\<lparr> service_type_by_name := (service_type_by_name s)(sn \<mapsto> st),
             service_client_factories_by_type :=
               (service_client_factories_by_type s)(st \<mapsto> f) \<rparr>"
  by (auto simp: register_service_client_def getattr_default_service_name_def
        getattr_service_type_def split: option.splits)

lemma register_all_keeps_names:
  "register_all s fs = (None, s') \<Longrightarrow> service_type_by_name s k \<noteq> None \<Longrightarrow>
   service_type_by_name s' k \<noteq> None"
proof (induction fs arbitrary: s)
  case Nil
  then show ?case by simp
next
  case (Cons f fs)
  from Cons.prems(1) obtain s1 where
    1: "register_service_client s f PNone PNone = (None, s1)" and 2: "register_all s1 fs = (None, s')"
    by (auto split: prod.splits option.splits)
  from register_service_client_ok [OF 1] Cons.prems(2) have "service_type_by_name s1 k \<noteq> None"
    by auto
  with Cons.IH [OF 2] show ?case by simp
qed

lemma register_all_keeps_types:
  "register_all s fs = (None, s') \<Longrightarrow> service_client_factories_by_type s st = Some f0 \<Longrightarrow>
   service_client_factories_by_type s' st = Some f0 \<or>
   (\<exists>f' \<in> set fs. service_type f' = Some st \<and> service_client_factories_by_type s' st = Some f')"
proof (induction fs arbitrary: s f0)
  case Nil
  then show ?case by simp
next
  case (Cons f fs)
  from Cons.prems(1) obtain s1 where
    1: "register_service_client s f PNone PNone = (None, s1)" and 2: "register_all s1 fs = (None, s')"
    by (auto split: prod.splits option.splits)
  from register_service_client_ok [OF 1] obtain sn t where
    t: "service_type f = Some t" and
    s1: "s1 = s\<lparr> service_type_by_name := (service_type_by_name s)(sn \<mapsto> t),
             service_client_factories_by_type :=
               (service_client_factories_by_type s)(t \<mapsto> f) \<rparr>"
    by blast
  show ?case
  proof (cases "t = st")
    case True
    with s1 have "service_client_factories_by_type s1 st = Some f" by simp
    from Cons.IH [OF 2 this] True t show ?thesis by auto
  next
    case False
    with s1 Cons.prems(2) have "service_client_factories_by_type s1 st = Some f0" by simp
    from Cons.IH [OF 2 this] show ?thesis by auto
  qed
qed

lemma register_all_registered:
  "register_all s fs = (None, s') \<Longrightarrow> f \<in> set fs \<Longrightarrow>
   \<exists>sn st. default_service_name f = Some sn \<and> service_type f = Some st \<and>
     service_type_by_name s' sn \<noteq> None \<and>
     (\<exists>f' \<in> set fs. service_type f' = Some st \<and>
                      service_client_factories_by_type s' st = Some f')"
proof (induction fs arbitrary: s)
  case Nil
  then show ?case by simp
next
  case (Cons g fs)
  from Cons.prems(1) obtain s1 where
    1: "register_service_client s g PNone PNone = (None, s1)" and 2: "register_all s1 fs = (None, s')"
    by (auto split: prod.splits option.splits)
  show ?case
  proof (cases "f \<in> set fs")
    case True
    from Cons.IH [OF 2 True] show ?thesis by auto
  next
    case False
    with Cons.prems(2) have fg: "f = g" by simp
    from register_service_client_ok [OF 1] obtain sn t where
      n: "default_service_name g = Some sn" and t: "service_type g = Some t" and
      s1: "s1 = s\<lparr> service_type_by_name := (service_type_by_name s)(sn \<mapsto> t),
               service_client_factories_by_type :=
                 (service_client_factories_by_type s)(t \<mapsto> g) \<rparr>"
      by blast
    from s1 have a: "service_type_by_name s1 sn \<noteq> None"
      and b: "service_client_factories_by_type s1 t = Some g" by simp_all
    from register_all_keeps_names [OF 2 a] register_all_keeps_types [OF 2 b] n t fg
    show ?thesis by auto
  qed
qed

lemma generate_client_name_defaults:
  "generate_client_name e p m = (c, m') \<Longrightarrow>
   DEFAULT_SERVICE_CLIENTS m' = DEFAULT_SERVICE_CLIENTS m"
  by (auto simp: generate_client_name_def Let_def emit_def split: option.splits if_splits)

lemma create_standard_sdk_defaults:
  "DEFAULT_SERVICE_CLIENTS (snd (create_standard_sdk e p sc g m)) =
     (if fst (load_robot_cert e (Sdk_init (Some p)) g) = None
      then DEFAULT_SERVICE_CLIENTS m @ (case sc of None \<Rightarrow> [] | Some extra \<Rightarrow> extra)
      else DEFAULT_SERVICE_CLIENTS m)"
  by (auto simp: create_standard_sdk_def Let_def emit_def
           dest!: generate_client_name_defaults split: prod.splits option.splits)

lemma create_standard_sdk_registers:
  "create_standard_sdk e p sc g m = (Inr s2, m2) \<Longrightarrow>
   \<exists>s0. register_all s0 (DEFAULT_SERVICE_CLIENTS m2) = (None, s2)"
  by (auto simp: create_standard_sdk_def Let_def split: prod.splits option.splits if_splits)

text \<open>The sample host names its clients after its node and process, and loads the packaged
  certificate.\<close>

lemma str_nat_pid: "str_nat 4242 = ''4242''"
  by code_simp

lemma basename_main: "basename ''/opt/app/main.py'' = ''main.py''"
  by code_simp

lemma generate_client_name_utc_host:
  "generate_client_name utc_host p m = (p @ ''host1:main.py-4242'', m)"
  by (simp add: generate_client_name_def utc_host_def str_nat_pid basename_main)

lemma load_default_cert_utc_host:
  "load_robot_cert utc_host s None = (None, s\<lparr> cert := Some ''PEM'' \<rparr>)"
  by (simp add: load_robot_cert_def utc_host_def)

text \<open>
  Claim C9, as stated: every call of \<^verbatim>\<open>create_standard_sdk\<close> with a non-empty list of
  extra service clients appends them to the module's list of default clients, so that
  later calls register them. It fails for a call that raises while it loads its
  certificate, before the list is touched: with a glob that matches no file the call
  raises \<^verbatim>\<open>IOError\<close>, the list is what it was, and the Sdk of a later call has no service
  of the extra's name.
\<close>

theorem create_standard_sdk_cert_failure_counterexample:
  "[ExtraClient] \<noteq> [] \<and>
   fst (create_standard_sdk utc_host ''app'' (Some [ExtraClient]) (Some ''none/*.pem'')
          sample_module) =
     Inl (IOError_msg (''No files matched '' @ [CHR 0x22] @ ''none/*.pem'' @ [CHR 0x22])) \<and>
   DEFAULT_SERVICE_CLIENTS
     (snd (create_standard_sdk utc_host ''app'' (Some [ExtraClient]) (Some ''none/*.pem'')
             sample_module)) =
     DEFAULT_SERVICE_CLIENTS sample_module \<and>
   \<not> isl (fst (create_standard_sdk utc_host ''other'' None None
                 (snd (create_standard_sdk utc_host ''app'' (Some [ExtraClient])
                         (Some ''none/*.pem'') sample_module)))) \<and>
   service_type_by_name
     (projr (fst (create_standard_sdk utc_host ''other'' None None
                    (snd (create_standard_sdk utc_host ''app'' (Some [ExtraClient])
                            (Some ''none/*.pem'') sample_module)))))
     (PStr ''extra'') = None"
proof -
  let ?first = "create_standard_sdk utc_host ''app'' (Some [ExtraClient]) (Some ''none/*.pem'')
                  sample_module"
  have g: "filter (isfile utc_host) (glob utc_host ''none/*.pem'') = []"
    by (simp add: utc_host_def)
  have l: "load_robot_cert utc_host s (Some ''none/*.pem'') =
             (Some (IOError_msg (''No files matched '' @ [CHR 0x22] @ ''none/*.pem'' @ [CHR 0x22])),
              s\<lparr> cert := None \<rparr>)" for s
    by (simp add: load_robot_cert_def g)
  have r1: "fst ?first =
     Inl (IOError_msg (''No files matched '' @ [CHR 0x22] @ ''none/*.pem'' @ [CHR 0x22]))"
    by (simp add: create_standard_sdk_def Let_def generate_client_name_utc_host l)
  have d1: "DEFAULT_SERVICE_CLIENTS (snd ?first) = DEFAULT_SERVICE_CLIENTS sample_module"
    by (simp add: create_standard_sdk_defaults l)
  have dm: "DEFAULT_SERVICE_CLIENTS sample_module = [AuthClient, ImageClient]"
    by (simp add: sample_module_def)
  have r2: "\<not> isl (fst (create_standard_sdk utc_host ''other'' None None (snd ?first))) \<and>
     service_type_by_name
       (projr (fst (create_standard_sdk utc_host ''other'' None None (snd ?first))))
       (PStr ''extra'') = None"
    by (simp add: create_standard_sdk_def [of utc_host "''other''"] Let_def
          generate_client_name_utc_host load_default_cert_utc_host d1 dm emit_def
          register_service_client_def getattr_default_service_name_def
          getattr_service_type_def AuthClient_def ImageClient_def Sdk_init_def)
  from r1 d1 r2 show ?thesis by simp
qed

text \<open>
  Claim C9, amended. A call of \<^verbatim>\<open>create_standard_sdk\<close> with a non-empty list of extra
  service clients that gets past the loading of its certificate leaves the module's list
  of default clients extended by the extras, whether or not its registrations then raise.
  After every later call, whatever list of service clients it passes (none included), the
  list is still the earlier defaults followed by the extras, followed by the later call's
  own extras when that call got past its certificate: it is never restored. And the Sdk
  that a later call returns has every extra of the earlier call registered: the extra's
  default name is a registered name, and its type maps to a factory of the list that has
  this type.
\<close>

theorem create_standard_sdk_extras_persist:
  "extra \<noteq> [] \<Longrightarrow> fst (load_robot_cert e (Sdk_init (Some p1)) g1) = None \<Longrightarrow>
   create_standard_sdk e p1 (Some extra) g1 m = (r1, m1) \<Longrightarrow>
   DEFAULT_SERVICE_CLIENTS m1 = DEFAULT_SERVICE_CLIENTS m @ extra \<and>
   (\<forall>e2 p2 sc2 g2 r2 m2.
      create_standard_sdk e2 p2 sc2 g2 m1 = (r2, m2) \<longrightarrow>
        DEFAULT_SERVICE_CLIENTS m2 =
          DEFAULT_SERVICE_CLIENTS m @ extra @
            (if fst (load_robot_cert e2 (Sdk_init (Some p2)) g2) = None
             then (case sc2 of None \<Rightarrow> [] | Some extra2 \<Rightarrow> extra2) else []) \<and>
        (\<forall>s2. r2 = Inr s2 \<longrightarrow>
           (\<forall>f \<in> set extra.
              \<exists>sn st. default_service_name f = Some sn \<and> service_type f = Some st \<and>
                service_type_by_name s2 sn \<noteq> None \<and>
                (\<exists>f' \<in> set (DEFAULT_SERVICE_CLIENTS m2).
                   service_type f' = Some st \<and>
                   service_client_factories_by_type s2 st = Some f'))))"
proof -
  assume ne: "extra \<noteq> []" and ok: "fst (load_robot_cert e (Sdk_init (Some p1)) g1) = None"
    and c1: "create_standard_sdk e p1 (Some extra) g1 m = (r1, m1)"
  from create_standard_sdk_defaults [of e p1 "Some extra" g1 m] ok c1
  have d1: "DEFAULT_SERVICE_CLIENTS m1 = DEFAULT_SERVICE_CLIENTS m @ extra" by simp
  have later: "\<forall>e2 p2 sc2 g2 r2 m2.
      create_standard_sdk e2 p2 sc2 g2 m1 = (r2, m2) \<longrightarrow>
        DEFAULT_SERVICE_CLIENTS m2 =
          DEFAULT_SERVICE_CLIENTS m @ extra @
            (if fst (load_robot_cert e2 (Sdk_init (Some p2)) g2) = None
             then (case sc2 of None \<Rightarrow> [] | Some extra2 \<Rightarrow> extra2) else []) \<and>
        (\<forall>s2. r2 = Inr s2 \<longrightarrow>
           (\<forall>f \<in> set extra.
              \<exists>sn st. default_service_name f = Some sn \<and> service_type f = Some st \<and>
                service_type_by_name s2 sn \<noteq> None \<and>
                (\<exists>f' \<in> set (DEFAULT_SERVICE_CLIENTS m2).
                   service_type f' = Some st \<and>
                   service_client_factories_by_type s2 st = Some f')))"
  proof (intro allI impI)
    fix e2 p2 sc2 g2 r2 m2
    assume c2: "create_standard_sdk e2 p2 sc2 g2 m1 = (r2, m2)"
    from create_standard_sdk_defaults [of e2 p2 sc2 g2 m1] c2 d1
    have d2: "DEFAULT_SERVICE_CLIENTS m2 =
          DEFAULT_SERVICE_CLIENTS m @ extra @
            (if fst (load_robot_cert e2 (Sdk_init (Some p2)) g2) = None
             then (case sc2 of None \<Rightarrow> [] | Some extra2 \<Rightarrow> extra2) else [])"
      by simp
    have reg: "\<forall>s2. r2 = Inr s2 \<longrightarrow>
           (\<forall>f \<in> set extra.
              \<exists>sn st. default_service_name f = Some sn \<and> service_type f = Some st \<and>
                service_type_by_name s2 sn \<noteq> None \<and>
                (\<exists>f' \<in> set (DEFAULT_SERVICE_CLIENTS m2).
                   service_type f' = Some st \<and>
                   service_client_factories_by_type s2 st = Some f'))"
    proof (intro allI impI ballI)
      fix s2 f
      assume r: "r2 = Inr s2" and f: "f \<in> set extra"
      from create_standard_sdk_registers c2 r obtain s0 where
        ra: "register_all s0 (DEFAULT_SERVICE_CLIENTS m2) = (None, s2)" by blast
      have "set extra \<subseteq> set (DEFAULT_SERVICE_CLIENTS m @ extra @ xs)" for xs by auto
      then have "set extra \<subseteq> set (DEFAULT_SERVICE_CLIENTS m2)" unfolding d2 .
      with f have "f \<in> set (DEFAULT_SERVICE_CLIENTS m2)" by blast
      then show "\<exists>sn st. default_service_name f = Some sn \<and> service_type f = Some st \<and>
                service_type_by_name s2 sn \<noteq> None \<and>
                (\<exists>f' \<in> set (DEFAULT_SERVICE_CLIENTS m2).
                   service_type f' = Some st \<and>
                   service_client_factories_by_type s2 st = Some f')"
        by (rule register_all_registered [OF ra])
    qed
    from d2 reg show "DEFAULT_SERVICE_CLIENTS m2 =
          DEFAULT_SERVICE_CLIENTS m @ extra @
            (if fst (load_robot_cert e2 (Sdk_init (Some p2)) g2) = None
             then (case sc2 of None \<Rightarrow> [] | Some extra2 \<Rightarrow> extra2) else []) \<and>
        (\<forall>s2. r2 = Inr s2 \<longrightarrow>
           (\<forall>f \<in> set extra.
              \<exists>sn st. default_service_name f = Some sn \<and> service_type f = Some st \<and>
                service_type_by_name s2 sn \<noteq> None \<and>
                (\<exists>f' \<in> set (DEFAULT_SERVICE_CLIENTS m2).
                   service_type f' = Some st \<and>
                   service_client_factories_by_type s2 st = Some f')))"
      by (rule conjI)
  qed
  from d1 later show ?thesis by (rule conjI)
qed

theorem create_standard_sdk_extras_persist_witness:
  "[ExtraClient] \<noteq> [] \<and>
   fst (load_robot_cert utc_host (Sdk_init (Some ''app'')) None) = None \<and>
   DEFAULT_SERVICE_CLIENTS
     (snd (create_standard_sdk utc_host ''app'' (Some [ExtraClient]) None sample_module)) =
     [AuthClient, ImageClient, ExtraClient] \<and>
   (\<exists>s2 m2.
      create_standard_sdk utc_host ''other'' None None
        (snd (create_standard_sdk utc_host ''app'' (Some [ExtraClient]) None sample_module)) =
        (Inr s2, m2) \<and>
      DEFAULT_SERVICE_CLIENTS m2 = [AuthClient, ImageClient, ExtraClient] \<and>
      service_type_by_name s2 (PStr ''extra'') \<noteq> None \<and>
      service_client_factories_by_type s2 (PStr ''example.ExtraService'') \<noteq> None) \<and>
   (\<exists>s3 m3.
      create_standard_sdk utc_host ''third'' (Some [ImageClient]) None
        (snd (create_standard_sdk utc_host ''app'' (Some [ExtraClient]) None sample_module)) =
        (Inr s3, m3) \<and>
      DEFAULT_SERVICE_CLIENTS m3 = [AuthClient, ImageClient, ExtraClient, ImageClient] \<and>
      service_type_by_name s3 (PStr ''extra'') \<noteq> None \<and>
      service_client_factories_by_type s3 (PStr ''example.ExtraService'') \<noteq> None)"
proof -
  let ?first = "create_standard_sdk utc_host ''app'' (Some [ExtraClient]) None sample_module"
  have ne: "[ExtraClient] \<noteq> []" by simp
  have ok: "fst (load_robot_cert utc_host (Sdk_init (Some p)) None) = None" for p
    by (simp add: load_default_cert_utc_host)
  have pr: "?first = (fst ?first, snd ?first)" by simp
  note th = create_standard_sdk_extras_persist [OF ne ok pr]
  have dm: "DEFAULT_SERVICE_CLIENTS sample_module = [AuthClient, ImageClient]"
    by (simp add: sample_module_def)
  from th dm have d1: "DEFAULT_SERVICE_CLIENTS (snd ?first) = [AuthClient, ImageClient, ExtraClient]"
    by simp
  have n: "default_service_name ExtraClient = Some (PStr ''extra'')"
    and t: "service_type ExtraClient = Some (PStr ''example.ExtraService'')"
    by (simp_all add: ExtraClient_def)
  have ra: "register_all s [AuthClient, ImageClient, ExtraClient] \<noteq> (Some x, y)" for s x y
    by (simp add: register_service_client_def getattr_default_service_name_def
          getattr_service_type_def AuthClient_def ImageClient_def ExtraClient_def)
  have rb: "register_all s [AuthClient, ImageClient, ExtraClient, ImageClient] \<noteq> (Some x, y)"
    for s x y
    by (simp add: register_service_client_def getattr_default_service_name_def
          getattr_service_type_def AuthClient_def ImageClient_def ExtraClient_def)
  have "\<exists>s2. fst (create_standard_sdk utc_host ''other'' None None (snd ?first)) = Inr s2"
    by (auto simp: create_standard_sdk_def [of utc_host "''other''"] Let_def
          generate_client_name_utc_host load_default_cert_utc_host d1 emit_def ra
          simp del: register_all.simps split: prod.splits option.splits)
  then obtain s2 m2 where
    c2: "create_standard_sdk utc_host ''other'' None None (snd ?first) = (Inr s2, m2)"
    by (metis prod.collapse)
  note t2 = th [THEN conjunct2, rule_format, OF c2]
  from t2 dm ok have d2: "DEFAULT_SERVICE_CLIENTS m2 = [AuthClient, ImageClient, ExtraClient]"
    by simp
  have reg2: "\<exists>sn st. default_service_name ExtraClient = Some sn \<and>
                service_type ExtraClient = Some st \<and>
                service_type_by_name s2 sn \<noteq> None \<and>
                (\<exists>f' \<in> set (DEFAULT_SERVICE_CLIENTS m2).
                   service_type f' = Some st \<and>
                   service_client_factories_by_type s2 st = Some f')"
    by (rule t2 [THEN conjunct2, rule_format, OF refl]) simp
  from reg2 n t have a2: "service_type_by_name s2 (PStr ''extra'') \<noteq> None"
    and b2: "service_client_factories_by_type s2 (PStr ''example.ExtraService'') \<noteq> None"
    by auto
  have "\<exists>s3. fst (create_standard_sdk utc_host ''third'' (Some [ImageClient]) None (snd ?first)) =
               Inr s3"
    by (auto simp: create_standard_sdk_def [of utc_host "''third''"] Let_def
          generate_client_name_utc_host load_default_cert_utc_host d1 emit_def rb
          simp del: register_all.simps split: prod.splits option.splits)
  then obtain s3 m3 where
    c3: "create_standard_sdk utc_host ''third'' (Some [ImageClient]) None (snd ?first) =
           (Inr s3, m3)"
    by (metis prod.collapse)
  note t3 = th [THEN conjunct2, rule_format, OF c3]
  from t3 dm ok
  have d3: "DEFAULT_SERVICE_CLIENTS m3 = [AuthClient, ImageClient, ExtraClient, ImageClient]"
    by simp
  have reg3: "\<exists>sn st. default_service_name ExtraClient = Some sn \<and>
                service_type ExtraClient = Some st \<and>
                service_type_by_name s3 sn \<noteq> None \<and>
                (\<exists>f' \<in> set (DEFAULT_SERVICE_CLIENTS m3).
                   service_type f' = Some st \<and>
                   service_client_factories_by_type s3 st = Some f')"
    by (rule t3 [THEN conjunct2, rule_format, OF refl]) simp
  from reg3 n t have a3: "service_type_by_name s3 (PStr ''extra'') \<noteq> None"
    and b3: "service_client_factories_by_type s3 (PStr ''example.ExtraService'') \<noteq> None"
    by auto
  from ne ok [of "''app''"] d1 c2 d2 a2 b2 c3 d3 a3 b3 show ?thesis by blast
qed

end
